theory Spec2Isabelle
  imports Complex_Main
begin

section \<open>The velocity motor controller of roboost\_motor\_control\<close>

text \<open>
  The development embeds the class template \<open>VelocityController\<close> of
  \<^verbatim>\<open>velocity_motor_controller.hpp\<close>: its constructor, \<open>set_target\<close>,
  \<open>get_measurement\<close> and \<open>get_setpoint\<close>.

  Conventions of the embedding.
  \<^item> A finite C++ \<open>float\<close> is the \<open>real\<close> it denotes. Where the code converts an
    integer to \<open>float\<close> or multiplies two floats, the result is rounded to IEEE
    single precision (\<open>float_of_int\<close>, \<open>round_float\<close>). The values returned by the
    collaborators are finite.
  \<^item> \<open>int32_t\<close> and \<open>int64_t\<close> values are mathematical integers. The controller
    does no integer arithmetic; the only place where the width matters is the
    conversion of a float to an integer type, whose range check is written out.
  \<^item> \<open>abs\<close> applied to a float is the absolute value of that float.
  \<^item> The six collaborators are template parameters of the class. They are a
    parameter of the model: a record of functions over a collaborator state \<open>'w\<close>.
    They take and return \<open>float\<close>. Every call the controller makes on a collaborator
    is appended to a log.
  \<^item> \<open>PWM_RESOLUTION\<close> is not declared in the two source files; it is the integer
    parameter \<open>pwm\<close> of the model.
\<close>

subsection \<open>Errors\<close>

text \<open>
  The ways in which a step of the controller leaves defined behaviour:
  \<open>NotANumber\<close> is the float division \<open>0 / 0\<close>, whose result is a NaN that then reaches
  the conversion to \<open>int32_t\<close>; \<open>AboveRange\<close> and \<open>BelowRange\<close> are the conversion of a
  float whose truncated value lies above or below what the integer type can represent.
\<close>

datatype error = NotANumber | AboveRange | BelowRange

subsection \<open>Rounding to single precision\<close>

text \<open>
  A single precision float has a 24 bit significand and an exponent between \<open>-126\<close>
  and 127. \<open>binade x\<close> is the exponent of the binade that holds \<open>x\<close>, found by the
  bounded search over this range; below \<open>2 powi (- 126)\<close> lie the subnormal numbers,
  which share the spacing of the lowest binade. \<open>ulp x\<close> is the spacing of the floats
  in the binade of \<open>x\<close>, and \<open>round_float\<close> rounds to the nearest multiple of it, a tie
  to the even significand. From magnitude \<open>2 powi 128\<close> on the result stands for an
  infinity; the controller uses such a value only as the operand of a conversion to
  an integer, which is out of range either way.
\<close>

definition round_half_even :: "real \<Rightarrow> int" where
  "round_half_even t =
     (let f = \<lfloor>t\<rfloor>; d = t - of_int f
      in if d < 1 / 2 then f else if 1 / 2 < d then f + 1 else if even f then f else f + 1)"

fun binade_from :: "nat \<Rightarrow> int \<Rightarrow> real \<Rightarrow> int" where
  "binade_from 0 e x = e"
| "binade_from (Suc n) e x = (if x < 2 powi (e + 1) then e else binade_from n (e + 1) x)"

definition binade :: "real \<Rightarrow> int" where
  "binade x = binade_from 253 (- 126) \<bar>x\<bar>"

definition ulp :: "real \<Rightarrow> real" where
  "ulp x = 2 powi (binade x - 23)"

definition round_float :: "real \<Rightarrow> real" where
  "round_float x = of_int (round_half_even (x / ulp x)) * ulp x"

text \<open>The implicit conversion of an \<open>int32_t\<close> or \<open>int64_t\<close> operand to \<open>float\<close>.\<close>

definition float_of_int :: "int \<Rightarrow> real" where
  "float_of_int n = round_float (of_int n)"

subsection \<open>Conversion of a float to an integer type\<close>

text \<open>The fractional part is discarded: truncation is towards zero.\<close>

definition trunc_toward_zero :: "real \<Rightarrow> int" where
  "trunc_toward_zero x = (if 0 \<le> x then \<lfloor>x\<rfloor> else \<lceil>x\<rceil>)"

definition to_int32 :: "real \<Rightarrow> error + int" where
  "to_int32 x =
     (let t = trunc_toward_zero x
      in if t < - (2 ^ 31) then Inl BelowRange
         else if 2 ^ 31 \<le> t then Inl AboveRange
         else Inr t)"

definition to_int64 :: "real \<Rightarrow> error + int" where
  "to_int64 x =
     (let t = trunc_toward_zero x
      in if t < - (2 ^ 63) then Inl BelowRange
         else if 2 ^ 63 \<le> t then Inl AboveRange
         else Inr t)"

text \<open>
  The language leaves a conversion outside the range undefined; a build still executes
  a conversion instruction and goes on. What that instruction yields is a parameter
  of the model. Two targets: on the first the instruction returns the most negative
  integer for every operand it cannot convert (the "integer indefinite" value of the
  x86 conversion instructions); on the second it saturates and converts a NaN to 0.
\<close>

record platform =
  undefined_int32 :: "error \<Rightarrow> int"
  undefined_int64 :: "error \<Rightarrow> int"

definition integer_indefinite :: platform where
  "integer_indefinite =
     \<lparr>undefined_int32 = (\<lambda>e. - (2 ^ 31)), undefined_int64 = (\<lambda>e. - (2 ^ 63))\<rparr>"

definition saturating :: platform where
  "saturating =
     \<lparr>undefined_int32 = (\<lambda>e. case e of NotANumber \<Rightarrow> 0 | AboveRange \<Rightarrow> 2 ^ 31 - 1
                                  | BelowRange \<Rightarrow> - (2 ^ 31)),
      undefined_int64 = (\<lambda>e. case e of NotANumber \<Rightarrow> 0 | AboveRange \<Rightarrow> 2 ^ 63 - 1
                                  | BelowRange \<Rightarrow> - (2 ^ 63))\<rparr>"

definition int32_on :: "platform \<Rightarrow> error + int \<Rightarrow> int" where
  "int32_on P r = (case r of Inl e \<Rightarrow> undefined_int32 P e | Inr t \<Rightarrow> t)"

definition int64_on :: "platform \<Rightarrow> error + int \<Rightarrow> int" where
  "int64_on P r = (case r of Inl e \<Rightarrow> undefined_int64 P e | Inr t \<Rightarrow> t)"

subsection \<open>Collaborators and the log of calls\<close>

datatype call =
    Encoder_update
  | Encoder_get_velocity
  | Input_filter_update real
  | Rate_limiting_filter_update real real
  | Pid_update real real
  | Output_filter_update real
  | Set_motor_control int

record 'w collaborators =
  encoder_update :: "'w \<Rightarrow> 'w"
  encoder_get_velocity_radians_per_second :: "'w \<Rightarrow> real"
  input_filter_update :: "real \<Rightarrow> 'w \<Rightarrow> real \<times> 'w"
  rate_limiting_filter_update :: "real \<Rightarrow> real \<Rightarrow> 'w \<Rightarrow> real \<times> 'w"
  pid_update :: "real \<Rightarrow> real \<Rightarrow> 'w \<Rightarrow> real \<times> 'w"
  output_filter_update :: "real \<Rightarrow> 'w \<Rightarrow> real \<times> 'w"
  set_motor_control :: "int \<Rightarrow> 'w \<Rightarrow> 'w"

subsection \<open>The controller\<close>

text \<open>
  The three data members that are not references (lines 98 to 100). A field is named
  as the member without its trailing underscore.
\<close>

record controller =
  deadband_threshold :: int
  minimum_output :: int
  current_setpoint :: int

text \<open>
  The constructor (lines 48 to 54): a member initialiser list and an empty body. It
  checks nothing and cannot fail; the result type is a sum only so that "construction
  fails" can be written down.
\<close>

definition VelocityController :: "int \<Rightarrow> int \<Rightarrow> error + controller" where
  "VelocityController deadband minimum =
     Inr \<lparr>deadband_threshold = deadband,
          minimum_output = minimum,
          current_setpoint = 0\<rparr>"

definition get_setpoint :: "controller \<Rightarrow> int" where
  "get_setpoint c = current_setpoint c"

definition get_measurement :: "'w collaborators \<Rightarrow> 'w \<Rightarrow> error + int" where
  "get_measurement K w = to_int64 (encoder_get_velocity_radians_per_second K w)"

text \<open>
  Lines 63 to 67, up to the value that the rate limiting filter returns: the filtered
  measurement, that value, and the state and log after the four calls.
\<close>

definition rate_limited ::
  "'w collaborators \<Rightarrow> real \<Rightarrow> 'w \<times> call list \<Rightarrow> real \<times> real \<times> 'w \<times> call list" where
  "rate_limited K desired_rotation_speed s =
     (let (w0, l0) = s;
          w1 = encoder_update K w0;
          l1 = l0 @ [Encoder_update];
          measured = encoder_get_velocity_radians_per_second K w1;
          l2 = l1 @ [Encoder_get_velocity];
          (input, w2) = input_filter_update K measured w1;
          l3 = l2 @ [Input_filter_update measured];
          (r, w3) = rate_limiting_filter_update K desired_rotation_speed input w2;
          l4 = l3 @ [Rate_limiting_filter_update desired_rotation_speed input]
      in (input, r, w3, l4))"

text \<open>
  The rest of line 67 and lines 69 to 70, given the integer that the conversion of the
  rate limited value produced: it is stored in the \<open>int64_t\<close> member
  \<open>current_setpoint_\<close>, the PID controller receives the member converted back to
  \<open>float\<close>, and the result is the output of the output filter.
\<close>

definition filtered_output ::
  "'w collaborators \<Rightarrow> controller \<Rightarrow> int \<Rightarrow> real \<Rightarrow> 'w \<Rightarrow> call list
     \<Rightarrow> real \<times> controller \<times> 'w \<times> call list" where
  "filtered_output K c setpoint input w3 l4 =
     (let c' = c\<lparr>current_setpoint := setpoint\<rparr>;
          (output, w4) = pid_update K (float_of_int (current_setpoint c')) input w3;
          l5 = l4 @ [Pid_update (float_of_int (current_setpoint c')) input];
          (output', w5) = output_filter_update K output w4;
          l6 = l5 @ [Output_filter_update output]
      in (output', c', w5, l6))"

text \<open>Lines 63 to 70, as far as the language defines them.\<close>

definition control_signal ::
  "'w collaborators \<Rightarrow> controller \<Rightarrow> real \<Rightarrow> 'w \<times> call list
     \<Rightarrow> error + (real \<times> controller \<times> 'w \<times> call list)" where
  "control_signal K c desired_rotation_speed s =
     (let (input, r, w3, l4) = rate_limited K desired_rotation_speed s
      in case to_int64 r of
           Inl e \<Rightarrow> Inl e
         | Inr setpoint \<Rightarrow> Inr (filtered_output K c setpoint input w3 l4))"

text \<open>
  Lines 73 to 80, the adjustment for deadband and minimum output. Both thresholds are
  converted to \<open>float\<close> and compared with the float itself. In the second branch
  \<open>output / abs(output)\<close> is \<open>0 / 0\<close> when \<open>output\<close> is zero; otherwise it is exactly
  1 or \<open>-1\<close>, and its product with the converted threshold is exact.
\<close>

definition adjust_output :: "controller \<Rightarrow> real \<Rightarrow> error + real" where
  "adjust_output c output =
     (if \<bar>output\<bar> < float_of_int (deadband_threshold c) then Inr 0
      else if \<bar>output\<bar> < float_of_int (minimum_output c) then
        (if \<bar>output\<bar> = 0 then Inl NotANumber
         else Inr (float_of_int (minimum_output c) * (output / \<bar>output\<bar>)))
      else Inr output)"

text \<open>
  Lines 73 to 83: the adjusted output, times \<open>PWM_RESOLUTION\<close> converted to \<open>float\<close>,
  the product rounded to \<open>float\<close> and cast to \<open>int32_t\<close>.
\<close>

definition motor_control_value :: "int \<Rightarrow> controller \<Rightarrow> real \<Rightarrow> error + int" where
  "motor_control_value pwm c output =
     (case adjust_output c output of
        Inl e \<Rightarrow> Inl e
      | Inr output' \<Rightarrow> to_int32 (round_float (output' * float_of_int pwm)))"

text \<open>The whole step, lines 61 to 86, as far as the language defines it.\<close>

definition set_target ::
  "'w collaborators \<Rightarrow> int \<Rightarrow> controller \<Rightarrow> real \<Rightarrow> 'w \<times> call list
     \<Rightarrow> error + (controller \<times> 'w \<times> call list)" where
  "set_target K pwm c desired_rotation_speed s =
     (case control_signal K c desired_rotation_speed s of
        Inl e \<Rightarrow> Inl e
      | Inr (output, c', w5, l6) \<Rightarrow>
          (case motor_control_value pwm c' output of
             Inl e \<Rightarrow> Inl e
           | Inr value \<Rightarrow>
               Inr (c', set_motor_control K value w5, l6 @ [Set_motor_control value])))"

text \<open>
  The step as a build for the platform \<open>P\<close> executes it: \<open>set_target\<close> returns nothing
  and always reaches the driver write on line 85. Where a conversion is undefined the
  step goes on with the integer the platform yields.
\<close>

definition control_signal_on ::
  "platform \<Rightarrow> 'w collaborators \<Rightarrow> controller \<Rightarrow> real \<Rightarrow> 'w \<times> call list
     \<Rightarrow> real \<times> controller \<times> 'w \<times> call list" where
  "control_signal_on P K c desired_rotation_speed s =
     (let (input, r, w3, l4) = rate_limited K desired_rotation_speed s
      in filtered_output K c (int64_on P (to_int64 r)) input w3 l4)"

definition set_target_on ::
  "platform \<Rightarrow> 'w collaborators \<Rightarrow> int \<Rightarrow> controller \<Rightarrow> real \<Rightarrow> 'w \<times> call list
     \<Rightarrow> controller \<times> 'w \<times> call list" where
  "set_target_on P K pwm c desired_rotation_speed s =
     (let (output, c', w5, l6) = control_signal_on P K c desired_rotation_speed s;
          value = int32_on P (motor_control_value pwm c' output)
      in (c', set_motor_control K value w5, l6 @ [Set_motor_control value]))"

subsection \<open>A test bench\<close>

text \<open>
  Deterministic collaborators for the concrete runs: the encoder reports the
  velocity held in the bench, both filters are the identity, the rate limiting
  filter is the given function of the desired value and the measurement, the PID
  controller returns a fixed output, and the driver stores the value it is given.
\<close>

record bench =
  velocity :: real
  driver_value :: int

definition bench_collaborators :: "(real \<Rightarrow> real \<Rightarrow> real) \<Rightarrow> real \<Rightarrow> bench collaborators" where
  "bench_collaborators limiter u =
     \<lparr>encoder_update = (\<lambda>w. w),
      encoder_get_velocity_radians_per_second = velocity,
      input_filter_update = (\<lambda>x w. (x, w)),
      rate_limiting_filter_update = (\<lambda>desired measurement w. (limiter desired measurement, w)),
      pid_update = (\<lambda>setpoint measurement w. (u, w)),
      output_filter_update = (\<lambda>x w. (x, w)),
      set_motor_control = (\<lambda>v w. w\<lparr>driver_value := v\<rparr>)\<rparr>"

definition identity_limiter :: "real \<Rightarrow> real \<Rightarrow> real" where
  "identity_limiter desired measurement = desired"

definition step_limiter :: "real \<Rightarrow> real \<Rightarrow> real" where
  "step_limiter desired measurement = min desired (measurement + 1 / 10)"

definition bench0 :: bench where
  "bench0 = \<lparr>velocity = 0, driver_value = 0\<rparr>"

definition controller_of :: "int \<Rightarrow> int \<Rightarrow> controller" where
  "controller_of deadband minimum =
     \<lparr>deadband_threshold = deadband,
      minimum_output = minimum,
      current_setpoint = 0\<rparr>"

text \<open>
  A second bench, a closed loop in which every collaborator matters: the encoder holds
  a sample that \<open>update\<close> latches into the reported velocity, the rate limiting filter
  lets the setpoint exceed the measurement by at most 2, and the PID controller is
  proportional with gain 1/2. Both filters are the identity.
\<close>

record rig =
  encoder_sample :: real
  encoder_velocity :: real
  duty :: int

definition rig_collaborators :: "rig collaborators" where
  "rig_collaborators =
     \<lparr>encoder_update = (\<lambda>w. w\<lparr>encoder_velocity := encoder_sample w\<rparr>),
      encoder_get_velocity_radians_per_second = encoder_velocity,
      input_filter_update = (\<lambda>x w. (x, w)),
      rate_limiting_filter_update = (\<lambda>desired measurement w. (min desired (measurement + 2), w)),
      pid_update = (\<lambda>setpoint measurement w. ((setpoint - measurement) / 2, w)),
      output_filter_update = (\<lambda>x w. (x, w)),
      set_motor_control = (\<lambda>v w. w\<lparr>duty := v\<rparr>)\<rparr>"

definition rig0 :: rig where
  "rig0 = \<lparr>encoder_sample = 2, encoder_velocity = 0, duty = 0\<rparr>"

subsection \<open>The configuration invariant of the specification\<close>

text \<open>
  The specification asks for \<open>0 \<le> deadband_threshold \<le> minimum_output \<le> PWM_MAX\<close>.
  The source has no such predicate; it is written down here, from the words of the
  specification, to state what the constructor does with a configuration outside it.
\<close>

definition configuration_invariant :: "int \<Rightarrow> int \<Rightarrow> int \<Rightarrow> bool" where
  "configuration_invariant pwm deadband minimum =
     (0 \<le> deadband \<and> deadband \<le> minimum \<and> minimum \<le> pwm)"

section \<open>Properties\<close>

subsection \<open>Rounding to single precision\<close>

lemma round_half_even_of_int: "round_half_even (of_int n) = n"
  by (simp add: round_half_even_def)

lemma round_half_even_ge: "of_int n \<le> t \<Longrightarrow> n \<le> round_half_even t"
  unfolding round_half_even_def Let_def by (auto; linarith)

lemma round_half_even_le: "t \<le> of_int n \<Longrightarrow> round_half_even t \<le> n"
proof -
  assume a: "t \<le> of_int n"
  show ?thesis
  proof (cases "t = of_int n")
    case True then show ?thesis by (simp add: round_half_even_of_int)
  next
    case False
    with a have "t < of_int n" by simp
    then have "\<lfloor>t\<rfloor> + 1 \<le> n" by linarith
    moreover have "round_half_even t \<le> \<lfloor>t\<rfloor> + 1"
      unfolding round_half_even_def Let_def by auto
    ultimately show ?thesis by linarith
  qed
qed

lemma binade_from_range: "e \<le> binade_from n e x \<and> binade_from n e x \<le> e + int n"
  by (induction n e x rule: binade_from.induct) auto

lemma binade_range: "- 126 \<le> binade x \<and> binade x \<le> 127"
  using binade_from_range [of "- 126" 253 "\<bar>x\<bar>"] by (simp add: binade_def)

lemma binade_from_lower: "e < binade_from n e x \<Longrightarrow> 2 powi (binade_from n e x) \<le> x"
proof (induction n e x rule: binade_from.induct)
  case (1 e x)
  then show ?case by simp
next
  case (2 n e x)
  show ?case
  proof (cases "x < 2 powi (e + 1)")
    case True
    with "2.prems" show ?thesis by simp
  next
    case False
    show ?thesis
    proof (cases "e + 1 < binade_from n (e + 1) x")
      case True
      with False "2.IH" show ?thesis by simp
    next
      case f: False
      with binade_from_range [of "e + 1" n x] have "binade_from n (e + 1) x = e + 1" by simp
      with False show ?thesis by simp
    qed
  qed
qed

lemma binade_lower: "- 126 < binade x \<Longrightarrow> 2 powi (binade x) \<le> \<bar>x\<bar>"
  unfolding binade_def by (rule binade_from_lower)

lemma binade_from_unique:
  "e0 \<le> e \<Longrightarrow> e \<le> e0 + int n \<Longrightarrow> 2 powi e \<le> x \<Longrightarrow> x < 2 powi (e + 1)
     \<Longrightarrow> binade_from n e0 x = e"
proof (induction n e0 x rule: binade_from.induct)
  case (1 e0 x)
  then show ?case by simp
next
  case (2 n e0 x)
  show ?case
  proof (cases "x < 2 powi (e0 + 1)")
    case True
    with "2.prems" have "(2::real) powi e < 2 powi (e0 + 1)" by linarith
    then have "e < e0 + 1"
      by (metis linorder_not_less power_int_increasing one_le_numeral)
    with "2.prems" True show ?thesis by simp
  next
    case False
    with "2.prems" have "e \<noteq> e0" by auto
    with "2.prems" False "2.IH" show ?thesis by simp
  qed
qed

lemma binade_unique:
  "- 126 \<le> e \<Longrightarrow> e \<le> 127 \<Longrightarrow> 2 powi e \<le> \<bar>x\<bar> \<Longrightarrow> \<bar>x\<bar> < 2 powi (e + 1) \<Longrightarrow> binade x = e"
  unfolding binade_def by (rule binade_from_unique) simp_all

lemma ulp_pos: "0 < ulp x"
  by (simp add: ulp_def)

lemma ulp_small:
  assumes "binade x \<le> 23"
  shows "ulp x = 1 / 2 ^ nat (23 - binade x)"
proof -
  have "ulp x = 2 powi (- (23 - binade x))" by (simp add: ulp_def)
  also have "\<dots> = 1 / 2 powi (23 - binade x)" by (rule power_int_minus_divide)
  also have "2 powi (23 - binade x) = (2::real) ^ nat (23 - binade x)"
    using assms by (simp add: power_int_def)
  finally show ?thesis .
qed

lemma int_over_ulp:
  assumes "binade x \<le> 23"
  shows "of_int m / ulp x = of_int (m * 2 ^ nat (23 - binade x))"
  by (simp add: ulp_small [OF assms])

lemma binade_large:
  assumes "24 \<le> binade x"
  shows "2 ^ 24 \<le> \<bar>x\<bar>"
proof -
  have "(2::real) powi 24 \<le> 2 powi (binade x)"
    using assms by (intro power_int_increasing) simp_all
  also have "\<dots> \<le> \<bar>x\<bar>" using assms by (intro binade_lower) simp
  finally show ?thesis by simp
qed

lemma round_half_even_minus: "round_half_even (- t) = - round_half_even t"
proof (cases "t \<in> \<int>")
  case True
  then obtain n where "t = of_int n" by (auto elim: Ints_cases)
  then have "- t = of_int (- n)" by simp
  then show ?thesis
    using \<open>t = of_int n\<close> by (simp only: round_half_even_of_int)
next
  case False
  then have "t \<noteq> of_int \<lfloor>t\<rfloor>" by (metis Ints_of_int)
  then have c: "\<lceil>t\<rceil> = \<lfloor>t\<rfloor> + 1" by (simp add: ceiling_altdef)
  have f: "\<lfloor>- t\<rfloor> = - \<lfloor>t\<rfloor> - 1"
    using c by (simp add: ceiling_def)
  show ?thesis
    unfolding round_half_even_def Let_def f by auto
qed

lemma binade_minus: "binade (- x) = binade x"
  by (simp add: binade_def)

lemma round_float_minus: "round_float (- x) = - round_float x"
  by (simp add: round_float_def ulp_def binade_minus round_half_even_minus)

lemma binade_two_24: "binade 16777216 = 24"
  by (rule binade_unique) simp_all

lemma round_float_two_24: "round_float 16777216 = 16777216"
proof -
  have u: "ulp 16777216 = 2"
    by (simp add: ulp_def binade_two_24)
  have "(16777216::real) / 2 = of_int 8388608" by simp
  then have "round_half_even (16777216 / 2) = 8388608"
    by (simp only: round_half_even_of_int)
  then show ?thesis
    unfolding round_float_def u by simp
qed

lemma round_float_ge:
  assumes m: "\<bar>m\<bar> \<le> 2 ^ 24" and x: "of_int m \<le> x"
  shows "of_int m \<le> round_float x"
proof (cases "binade x \<le> 23")
  case True
  have "of_int m / ulp x \<le> x / ulp x"
    using x ulp_pos [of x] by (simp add: divide_right_mono)
  then have "m * 2 ^ nat (23 - binade x) \<le> round_half_even (x / ulp x)"
    unfolding int_over_ulp [OF True] by (rule round_half_even_ge)
  then have "of_int (m * 2 ^ nat (23 - binade x)) * ulp x \<le> of_int (round_half_even (x / ulp x)) * ulp x"
    using ulp_pos [of x] by (simp add: mult_right_mono del: of_int_mult of_int_power)
  then show ?thesis by (simp add: round_float_def ulp_small [OF True])
next
  case False
  then have b: "24 \<le> binade x" by simp
  have lo: "2 powi (binade x) \<le> \<bar>x\<bar>" using b by (intro binade_lower) simp
  have big: "(2::real) ^ 24 \<le> \<bar>x\<bar>" using b by (rule binade_large)
  have mr: "\<bar>real_of_int m\<bar> \<le> 2 ^ 24"
    using m by (metis of_int_abs of_int_le_iff of_int_numeral of_int_power)
  show ?thesis
  proof (cases "0 \<le> x")
    case True
    have "2 powi (binade x) / ulp x = (2::real) powi 23"
      by (simp add: ulp_def flip: power_int_diff)
    also have "\<dots> = of_int (2 ^ 23)" by simp
    finally have "of_int (2 ^ 23) \<le> x / ulp x"
      using lo True ulp_pos [of x] by (metis abs_of_nonneg divide_right_mono less_imp_le)
    then have "2 ^ 23 \<le> round_half_even (x / ulp x)" by (rule round_half_even_ge)
    then have "of_int (2 ^ 23) * ulp x \<le> round_float x"
      unfolding round_float_def using ulp_pos [of x]
      by (intro mult_right_mono) (simp_all del: of_int_power)
    moreover have "of_int (2 ^ 23) * ulp x = 2 powi (binade x)"
      by (simp add: ulp_def power_int_diff)
    moreover have "(2::real) powi 24 \<le> 2 powi (binade x)"
      using b by (intro power_int_increasing) simp_all
    ultimately show ?thesis using mr by simp
  next
    case False
    with big have "x \<le> - (2 ^ 24)" by simp
    with mr x have "x = - 16777216" by simp
    then show ?thesis using x by (simp add: round_float_minus round_float_two_24)
  qed
qed

lemma round_float_le:
  assumes m: "\<bar>m\<bar> \<le> 2 ^ 24" and x: "x \<le> of_int m"
  shows "round_float x \<le> of_int m"
proof -
  have "of_int (- m) \<le> round_float (- x)"
    using m x by (intro round_float_ge) simp_all
  then show ?thesis by (simp add: round_float_minus)
qed

lemma round_float_of_int:
  assumes "\<bar>n\<bar> \<le> 2 ^ 24"
  shows "round_float (of_int n) = of_int n"
  using round_float_ge [OF assms, of "of_int n"] round_float_le [OF assms, of "of_int n"]
  by simp



lemma round_float_nonneg: "0 \<le> x \<Longrightarrow> 0 \<le> round_float x"
  using round_float_ge [of 0 x] by simp

lemma round_float_nonpos: "x \<le> 0 \<Longrightarrow> round_float x \<le> 0"
  using round_float_le [of 0 x] by simp

lemma round_float_sgn: "round_float x \<noteq> 0 \<Longrightarrow> sgn (round_float x) = sgn x"
  using round_float_nonneg [of x] round_float_nonpos [of x]
  by (cases "0 \<le> x") (auto simp: sgn_if)

lemma float_of_int_exact: "\<bar>n\<bar> \<le> 2 ^ 24 \<Longrightarrow> float_of_int n = of_int n"
  by (simp add: float_of_int_def round_float_of_int)

lemma float_of_int_pos: "0 < n \<Longrightarrow> 1 \<le> float_of_int n"
  using round_float_ge [of 1 "of_int n"] by (simp add: float_of_int_def)

lemma float_of_int_nonpos: "n \<le> 0 \<Longrightarrow> float_of_int n \<le> 0"
  using round_float_nonpos [of "of_int n"] by (simp add: float_of_int_def)


lemma float_of_int_16777219: "float_of_int 16777219 = 16777220"
proof -
  have b: "binade 16777219 = 24" by (rule binade_unique) simp_all
  have u: "ulp 16777219 = 2" by (simp add: ulp_def b)
  show ?thesis
    by (simp add: float_of_int_def round_float_def u round_half_even_def)
qed

text \<open>Rules for evaluating a step on small integer values.\<close>

lemma round_float_numeral:
  "(numeral k :: int) \<le> 2 ^ 24 \<Longrightarrow> round_float (numeral k) = numeral k"
  "(numeral k :: int) \<le> 2 ^ 24 \<Longrightarrow> round_float (- numeral k) = - numeral k"
  "round_float 0 = 0"
  "round_float 1 = 1"
  using round_float_of_int [of "numeral k"] round_float_of_int [of "- numeral k"]
    round_float_of_int [of 0] round_float_of_int [of 1]
  by simp_all



subsection \<open>Truncation\<close>

lemma trunc_toward_zero_of_int: "trunc_toward_zero (of_int n) = n"
  by (simp add: trunc_toward_zero_def)



lemma trunc_toward_zero_pos: "0 < trunc_toward_zero x \<longleftrightarrow> 1 \<le> x"
  unfolding trunc_toward_zero_def by (auto; linarith)

lemma trunc_toward_zero_neg: "trunc_toward_zero x < 0 \<longleftrightarrow> x \<le> - 1"
  unfolding trunc_toward_zero_def by (auto; linarith)

lemma trunc_toward_zero_sgn:
  "trunc_toward_zero x \<noteq> 0 \<Longrightarrow> sgn (real_of_int (trunc_toward_zero x)) = sgn x"
  using trunc_toward_zero_pos [of x] trunc_toward_zero_neg [of x]
  by (cases "0 < trunc_toward_zero x") (auto simp: sgn_if)

lemma to_int32_Inr: "to_int32 x = Inr v \<Longrightarrow> v = trunc_toward_zero x"
  by (simp add: to_int32_def Let_def split: if_splits)

lemma to_int64_Inr: "to_int64 x = Inr v \<Longrightarrow> v = trunc_toward_zero x"
  by (simp add: to_int64_def Let_def split: if_splits)

subsection \<open>The shape of a step\<close>

lemma filtered_output_thresholds:
  assumes "filtered_output K c setpoint input w3 l4 = (u, c', w5, l6)"
  shows "deadband_threshold c' = deadband_threshold c \<and> minimum_output c' = minimum_output c"
  using assms by (auto simp: filtered_output_def Let_def split: prod.splits)


lemma control_signal_on_thresholds:
  assumes "control_signal_on P K c d s = (u, c', w5, l6)"
  shows "deadband_threshold c' = deadband_threshold c \<and> minimum_output c' = minimum_output c"
  using assms filtered_output_thresholds
  by (fastforce simp: control_signal_on_def Let_def split: prod.splits)


lemma motor_control_value_Inr:
  assumes "motor_control_value pwm c u = Inr v"
  shows "\<exists>a. adjust_output c u = Inr a
             \<and> v = trunc_toward_zero (round_float (a * float_of_int pwm))"
  using assms
  by (auto simp: motor_control_value_def dest: to_int32_Inr split: sum.splits)

lemma adjust_output_floor:
  assumes "adjust_output c u = Inr a" "\<not> \<bar>u\<bar> < float_of_int (deadband_threshold c)"
     "\<bar>u\<bar> < float_of_int (minimum_output c)"
  shows "u \<noteq> 0 \<and> a = float_of_int (minimum_output c) * sgn u"
  using assms by (auto simp: adjust_output_def sgn_if split: if_splits)

lemma motor_control_value_thresholds:
  assumes "deadband_threshold c' = deadband_threshold c"
    and "minimum_output c' = minimum_output c"
  shows "motor_control_value pwm c' u = motor_control_value pwm c u"
  using assms by (simp add: motor_control_value_def adjust_output_def)


lemma set_target_on_command:
  assumes run: "set_target_on P K pwm c d s = (c', w', l')"
    and sig: "control_signal_on P K c d s = (u, c2, w5, l6)"
    and wr: "last l' = Set_motor_control v"
  shows "v = int32_on P (motor_control_value pwm c u)"
proof -
  from run sig wr have "v = int32_on P (motor_control_value pwm c2 u)"
    by (auto simp: set_target_on_def Let_def)
  then show ?thesis
    using control_signal_on_thresholds [OF sig]
      motor_control_value_thresholds [of c2 c pwm u] by simp
qed

text \<open>Where the language defines the step, every platform executes it as defined.\<close>

lemma set_target_on_refines:
  assumes "set_target K pwm c d s = Inr r"
  shows "set_target_on P K pwm c d s = r"
  using assms
  by (auto simp: set_target_def set_target_on_def control_signal_def control_signal_on_def
        int32_on_def int64_on_def Let_def split: sum.splits prod.splits)

subsection \<open>The value computed from the filtered output\<close>


lemma motor_control_value_sgn:
  assumes pwm: "0 < pwm" and v: "motor_control_value pwm c u = Inr v" and nz: "v \<noteq> 0"
  shows "sgn (real_of_int v) = sgn u"
proof -
  from v obtain a where a: "adjust_output c u = Inr a"
    and va: "v = trunc_toward_zero (round_float (a * float_of_int pwm))"
    using motor_control_value_Inr by blast
  have ppos: "0 < float_of_int pwm" using float_of_int_pos [OF pwm] by simp
  have rnz: "round_float (a * float_of_int pwm) \<noteq> 0"
    using va nz by (auto simp: trunc_toward_zero_def)
  have anz: "a \<noteq> 0"
    using rnz by (auto simp: round_float_numeral)
  have "sgn (real_of_int v) = sgn (round_float (a * float_of_int pwm))"
    using va nz trunc_toward_zero_sgn by blast
  also have "\<dots> = sgn (a * float_of_int pwm)" using rnz by (rule round_float_sgn)
  also have "\<dots> = sgn a" using ppos by (simp add: sgn_mult)
  also have "sgn a = sgn u"
  proof (cases "\<bar>u\<bar> < float_of_int (deadband_threshold c)")
    case True
    with a have "a = 0" by (simp add: adjust_output_def)
    with anz show ?thesis by simp
  next
    case db: False
    show ?thesis
    proof (cases "\<bar>u\<bar> < float_of_int (minimum_output c)")
      case True
      with a db have "u \<noteq> 0" "a = float_of_int (minimum_output c) * sgn u"
        using adjust_output_floor by blast+
      moreover from True have "0 < float_of_int (minimum_output c)" by linarith
      ultimately show ?thesis by (simp add: sgn_mult)
    next
      case False
      with a db show ?thesis by (simp add: adjust_output_def)
    qed
  qed
  finally show ?thesis .
qed


subsection \<open>Steps with an undefined conversion\<close>

lemma adjust_output_Inl: "adjust_output c u = Inl e \<Longrightarrow> e = NotANumber \<and> u = 0"
  by (auto simp: adjust_output_def split: if_splits)

lemma to_int32_Inl:
  assumes "to_int32 x = Inl e"
  shows "(e = AboveRange \<and> 1 \<le> x) \<or> (e = BelowRange \<and> x \<le> - 1)"
proof -
  from assms have "(e = AboveRange \<and> 0 < trunc_toward_zero x)
                 \<or> (e = BelowRange \<and> trunc_toward_zero x < 0)"
    by (auto simp: to_int32_def Let_def split: if_splits)
  then show ?thesis by (simp add: trunc_toward_zero_pos trunc_toward_zero_neg)
qed

lemma motor_control_value_Inl:
  assumes "motor_control_value pwm c u = Inl e"
  shows "(e = NotANumber \<and> u = 0)
       \<or> (\<exists>a. adjust_output c u = Inr a
               \<and> ((e = AboveRange \<and> 1 \<le> round_float (a * float_of_int pwm))
                  \<or> (e = BelowRange \<and> round_float (a * float_of_int pwm) \<le> - 1)))"
proof (cases "adjust_output c u")
  case (Inl e')
  with assms have "e' = e" by (simp add: motor_control_value_def)
  with Inl show ?thesis using adjust_output_Inl by blast
next
  case (Inr a)
  with assms have "to_int32 (round_float (a * float_of_int pwm)) = Inl e"
    by (simp add: motor_control_value_def)
  with Inr show ?thesis using to_int32_Inl by blast
qed

lemma adjust_output_sgn:
  assumes a: "adjust_output c u = Inr a" and anz: "a \<noteq> 0"
  shows "sgn a = sgn u"
proof (cases "\<bar>u\<bar> < float_of_int (deadband_threshold c)")
  case True
  with a have "a = 0" by (simp add: adjust_output_def)
  with anz show ?thesis by simp
next
  case db: False
  show ?thesis
  proof (cases "\<bar>u\<bar> < float_of_int (minimum_output c)")
    case True
    with a db have "u \<noteq> 0" "a = float_of_int (minimum_output c) * sgn u"
      using adjust_output_floor by blast+
    moreover from True have "0 < float_of_int (minimum_output c)" by linarith
    ultimately show ?thesis by (simp add: sgn_mult)
  next
    case False
    with a db show ?thesis by (simp add: adjust_output_def)
  qed
qed

lemma scaled_output_sgn:
  assumes pwm: "0 < pwm" and a: "adjust_output c u = Inr a"
    and rnz: "round_float (a * float_of_int pwm) \<noteq> 0"
  shows "sgn (round_float (a * float_of_int pwm)) = sgn u"
proof -
  have ppos: "0 < float_of_int pwm" using float_of_int_pos [OF pwm] by simp
  have anz: "a \<noteq> 0" using rnz by (auto simp: round_float_numeral)
  have "sgn (round_float (a * float_of_int pwm)) = sgn (a * float_of_int pwm)"
    using rnz by (rule round_float_sgn)
  also have "\<dots> = sgn a" using ppos by (simp add: sgn_mult)
  also have "\<dots> = sgn u" using a anz by (rule adjust_output_sgn)
  finally show ?thesis .
qed


lemma written_value_sgn:
  assumes pwm: "0 < pwm"
    and H: "motor_control_value pwm c u = Inr v0
            \<or> (undefined_int32 P NotANumber = 0 \<and> 0 < undefined_int32 P AboveRange
                \<and> undefined_int32 P BelowRange < 0)"
    and v: "v = int32_on P (motor_control_value pwm c u)" and nz: "v \<noteq> 0"
  shows "sgn (real_of_int v) = sgn u"
proof (cases "motor_control_value pwm c u")
  case (Inr v1)
  with v have "motor_control_value pwm c u = Inr v" by (simp add: int32_on_def)
  with pwm show ?thesis using nz by (rule motor_control_value_sgn)
next
  case (Inl e)
  with v have ve: "v = undefined_int32 P e" by (simp add: int32_on_def)
  from H Inl have plat: "undefined_int32 P NotANumber = 0" "0 < undefined_int32 P AboveRange"
    "undefined_int32 P BelowRange < 0" by simp_all
  from motor_control_value_Inl [OF Inl] ve nz plat(1)
  obtain a where a: "adjust_output c u = Inr a"
    and r: "(e = AboveRange \<and> 1 \<le> round_float (a * float_of_int pwm))
          \<or> (e = BelowRange \<and> round_float (a * float_of_int pwm) \<le> - 1)"
    by auto
  from r have rnz: "round_float (a * float_of_int pwm) \<noteq> 0" by auto
  have s: "sgn (round_float (a * float_of_int pwm)) = sgn u"
    using pwm a rnz by (rule scaled_output_sgn)
  from r show ?thesis
  proof
    assume "e = AboveRange \<and> 1 \<le> round_float (a * float_of_int pwm)"
    with s ve plat(2) show ?thesis by (simp add: sgn_if split: if_splits)
  next
    assume "e = BelowRange \<and> round_float (a * float_of_int pwm) \<le> - 1"
    with s ve plat(3) show ?thesis by (simp add: sgn_if split: if_splits)
  qed
qed

text \<open>Both platforms of the model meet the provisos of the two lemmas above.\<close>

lemma platforms_undefined_magnitude:
  assumes "m \<le> 2 ^ 31 - 1"
  shows "undefined_int32 integer_indefinite e = 0 \<or> m \<le> \<bar>undefined_int32 integer_indefinite e\<bar>"
    and "undefined_int32 saturating e = 0 \<or> m \<le> \<bar>undefined_int32 saturating e\<bar>"
  using assms by (cases e; simp add: integer_indefinite_def saturating_def)+

lemma saturating_undefined_sign:
  "undefined_int32 saturating NotANumber = 0 \<and> 0 < undefined_int32 saturating AboveRange
     \<and> undefined_int32 saturating BelowRange < 0"
  by (simp add: saturating_def)

text \<open>Rules for evaluating a step on the benches.\<close>

lemmas bench_run =
  set_target_def control_signal_def filtered_output_def rate_limited_def motor_control_value_def
  adjust_output_def to_int32_def to_int64_def trunc_toward_zero_def bench_collaborators_def
  identity_limiter_def step_limiter_def bench0_def controller_of_def Let_def
  float_of_int_exact round_float_numeral

lemmas platform_run =
  set_target_on_def control_signal_on_def int32_on_def int64_on_def integer_indefinite_def
  saturating_def rig_collaborators_def rig0_def

subsection \<open>Rounding is visible in the command\<close>

text \<open>
  The product on line 83 is rounded to \<open>float\<close> before the cast truncates it. With the
  float nearest to 0.7 as output and \<open>PWM_RESOLUTION = 10\<close> the exact product lies below
  7, the rounded product is 7, and 7 is written. A \<open>PWM_RESOLUTION\<close> that no float
  represents is rounded before the multiplication: for 16777219 and output 1 the
  value written is 16777220.
\<close>

lemma binade_between_4_and_8: "4 \<le> \<bar>x\<bar> \<Longrightarrow> \<bar>x\<bar> < 8 \<Longrightarrow> binade x = 2"
  by (rule binade_unique) simp_all

lemma scaled_output_is_rounded:
  "motor_control_value 10 (controller_of 0 0) (11744051 / 16777216) = Inr 7"
proof -
  have b: "binade (58720255 / 8388608) = 2" by (rule binade_between_4_and_8) simp_all
  have "round_float (58720255 / 8388608) = 7"
    by (simp add: round_float_def ulp_def b round_half_even_def)
  then show ?thesis
    by (simp add: motor_control_value_def adjust_output_def controller_of_def float_of_int_exact
          to_int32_def trunc_toward_zero_def)
qed

lemma resolution_is_rounded:
  "motor_control_value 16777219 (controller_of 0 0) 1 = Inr 16777220"
proof -
  have b: "binade 16777220 = 24" by (rule binade_unique) simp_all
  have "round_float 16777220 = 16777220"
    by (simp add: round_float_def ulp_def b round_half_even_def)
  then show ?thesis
    by (simp add: motor_control_value_def adjust_output_def controller_of_def float_of_int_exact
          float_of_int_16777219 to_int32_def trunc_toward_zero_def)
qed

lemma round_float_4294967296: "round_float 4294967296 = 4294967296"
proof -
  have b: "binade 4294967296 = 32" by (rule binade_unique) simp_all
  show ?thesis
    by (simp add: round_float_def ulp_def b round_half_even_def)
qed

section \<open>The claims\<close>

text \<open>
  In every statement below, \<open>u\<close> is the output of the output filter, the first
  component of \<open>control_signal\<close> or \<open>control_signal_on\<close>, and the command written to the
  driver is the argument of the \<open>Set_motor_control\<close> call that ends the log of a step.
\<close>

subsection \<open>Deadband\<close>

text \<open>
  C1. The claim: the command written is 0 if and only if
  \<open>\<bar>u * PWM_MAX\<bar> < deadband_threshold\<close>. The code compares \<open>\<bar>u\<bar>\<close> itself, before
  scaling, with the threshold given in PWM counts. On the bench, with
  \<open>PWM_RESOLUTION = 4096\<close>, deadband 100, minimum 300 and \<open>u = 1/2\<close>, the step writes 0
  although \<open>\<bar>u * 4096\<bar> = 2048\<close> is not below 100.
\<close>

theorem C1_deadband_compares_unscaled_output:
  "control_signal (bench_collaborators identity_limiter (1 / 2)) (controller_of 100 300) 1 (bench0, [])
     = Inr (1 / 2, \<lparr>deadband_threshold = 100, minimum_output = 300, current_setpoint = 1\<rparr>, bench0,
            [Encoder_update, Encoder_get_velocity, Input_filter_update 0,
             Rate_limiting_filter_update 1 0, Pid_update 1 0, Output_filter_update (1 / 2)])
   \<and> set_target (bench_collaborators identity_limiter (1 / 2)) 4096 (controller_of 100 300) 1 (bench0, [])
     = Inr (\<lparr>deadband_threshold = 100, minimum_output = 300, current_setpoint = 1\<rparr>, bench0,
            [Encoder_update, Encoder_get_velocity, Input_filter_update 0,
             Rate_limiting_filter_update 1 0, Pid_update 1 0, Output_filter_update (1 / 2),
             Set_motor_control 0])
   \<and> \<not> \<bar>(1 / 2) * real_of_int 4096\<bar> < real_of_int (deadband_threshold (controller_of 100 300))"
  by (simp add: bench_run)

subsection \<open>Saturation\<close>




subsection \<open>The setpoint\<close>

text \<open>
  C3. The claim: after a successful \<open>set_target\<close>, \<open>get_setpoint\<close> returns exactly the real
  value that the rate limiting filter produced. The member that holds the setpoint is an
  \<open>int64_t\<close>, so the assignment on line 67 discards the fraction. With the filter
  returning \<open>min desired (measurement + 1/10)\<close> and measurement 0, after \<open>set_target 5\<close>
  the getter returns 0, not 1/10, and the PID controller was given the setpoint 0.
  (The float nearest to 1/10 truncates to 0 as well.)
\<close>

theorem C3_setpoint_loses_fraction:
  "rate_limited (bench_collaborators step_limiter 0) 5 (bench0, [])
     = (0, 1 / 10, bench0,
        [Encoder_update, Encoder_get_velocity, Input_filter_update 0,
         Rate_limiting_filter_update 5 0])
   \<and> set_target (bench_collaborators step_limiter 0) 4096 (controller_of 0 0) 5 (bench0, [])
     = Inr (\<lparr>deadband_threshold = 0, minimum_output = 0, current_setpoint = 0\<rparr>, bench0,
            [Encoder_update, Encoder_get_velocity, Input_filter_update 0,
             Rate_limiting_filter_update 5 0, Pid_update 0 0, Output_filter_update 0,
             Set_motor_control 0])
   \<and> get_setpoint \<lparr>deadband_threshold = 0, minimum_output = 0, current_setpoint = 0\<rparr> = 0
   \<and> real_of_int (get_setpoint \<lparr>deadband_threshold = 0, minimum_output = 0, current_setpoint = 0\<rparr>)
       \<noteq> 1 / 10"
  by (simp add: bench_run get_setpoint_def)

subsection \<open>Minimum output\<close>




subsection \<open>Sign\<close>

text \<open>
  The claim C5, that a nonzero command has the sign of \<open>u\<close>, fails where the scaled
  output leaves the range of \<open>int32_t\<close>: nothing clamps it, and the conversion is
  undefined. With \<open>PWM_RESOLUTION = 4096\<close>, no deadband, no minimum and
  \<open>u = 1048576\<close> the product is \<open>2 ^ 32\<close>; on the platform that returns the integer
  indefinite value the step writes \<open>- 2147483648\<close>, a negative command for a positive
  output.
\<close>

theorem C5_overflow_sign_counterexample:
  "control_signal_on integer_indefinite (bench_collaborators identity_limiter 1048576)
      (controller_of 0 0) 1 (bench0, [])
     = (1048576, \<lparr>deadband_threshold = 0, minimum_output = 0, current_setpoint = 1\<rparr>, bench0,
        [Encoder_update, Encoder_get_velocity, Input_filter_update 0,
         Rate_limiting_filter_update 1 0, Pid_update 1 0, Output_filter_update 1048576])
   \<and> set_target_on integer_indefinite (bench_collaborators identity_limiter 1048576) 4096
      (controller_of 0 0) 1 (bench0, [])
     = (\<lparr>deadband_threshold = 0, minimum_output = 0, current_setpoint = 1\<rparr>,
        \<lparr>velocity = 0, driver_value = - 2147483648\<rparr>,
        [Encoder_update, Encoder_get_velocity, Input_filter_update 0,
         Rate_limiting_filter_update 1 0, Pid_update 1 0, Output_filter_update 1048576,
         Set_motor_control (- 2147483648)])
   \<and> (- 2147483648 :: int) \<noteq> 0
   \<and> sgn (real_of_int (- 2147483648)) \<noteq> sgn (1048576 :: real)"
  by (simp add: bench_run platform_run round_float_4294967296)

text \<open>
  C5, amended. For a positive \<open>PWM_RESOLUTION\<close>: a nonzero command written to the driver
  has the sign of \<open>u\<close>, the output of the output filter, in every step whose conversion
  on line 83 is defined (no \<open>0 / 0\<close>, the scaled output within the range of
  \<open>int32_t\<close>), and in every step at all on a platform whose conversion yields 0 for a
  NaN, a positive integer above the range and a negative one below it (a saturating
  conversion).
\<close>

theorem C5_nonzero_command_has_sign_of_output:
  assumes "0 < pwm"
    and "motor_control_value pwm c u = Inr v0
         \<or> (undefined_int32 P NotANumber = 0 \<and> 0 < undefined_int32 P AboveRange
             \<and> undefined_int32 P BelowRange < 0)"
    and "set_target_on P K pwm c d s = (c', w', l')"
    and "control_signal_on P K c d s = (u, c2, w5, l6)"
    and "last l' = Set_motor_control v"
    and "v \<noteq> 0"
  shows "sgn (real_of_int v) = sgn u"
proof -
  have "v = int32_on P (motor_control_value pwm c u)"
    using assms(3,4,5) by (rule set_target_on_command)
  with assms(1,2) show ?thesis using assms(6) by (rule written_value_sgn)
qed

theorem C5_sign_witness:
  "(0 :: int) < 4096
   \<and> set_target_on integer_indefinite (bench_collaborators identity_limiter (- (1 / 2))) 4096
      (controller_of 0 300) 1 (bench0, [])
     = (\<lparr>deadband_threshold = 0, minimum_output = 300, current_setpoint = 1\<rparr>,
        \<lparr>velocity = 0, driver_value = - 1228800\<rparr>,
        [Encoder_update, Encoder_get_velocity, Input_filter_update 0,
         Rate_limiting_filter_update 1 0, Pid_update 1 0, Output_filter_update (- (1 / 2)),
         Set_motor_control (- 1228800)])
   \<and> control_signal_on integer_indefinite (bench_collaborators identity_limiter (- (1 / 2)))
      (controller_of 0 300) 1 (bench0, [])
     = (- (1 / 2), \<lparr>deadband_threshold = 0, minimum_output = 300, current_setpoint = 1\<rparr>, bench0,
        [Encoder_update, Encoder_get_velocity, Input_filter_update 0,
         Rate_limiting_filter_update 1 0, Pid_update 1 0, Output_filter_update (- (1 / 2))])
   \<and> motor_control_value 4096 (controller_of 0 300) (- (1 / 2)) = Inr (- 1228800)
   \<and> (- 1228800 :: int) \<noteq> 0
   \<and> sgn (real_of_int (- 1228800)) = sgn (- (1 / 2))
   \<and> set_target_on saturating (bench_collaborators identity_limiter 1048576) 4096
      (controller_of 0 0) 1 (bench0, [])
     = (\<lparr>deadband_threshold = 0, minimum_output = 0, current_setpoint = 1\<rparr>,
        \<lparr>velocity = 0, driver_value = 2147483647\<rparr>,
        [Encoder_update, Encoder_get_velocity, Input_filter_update 0,
         Rate_limiting_filter_update 1 0, Pid_update 1 0, Output_filter_update 1048576,
         Set_motor_control 2147483647])
   \<and> motor_control_value 4096 (controller_of 0 0) 1048576 = Inl AboveRange
   \<and> sgn (real_of_int 2147483647) = sgn (1048576 :: real)"
proof -
  let ?K = "bench_collaborators identity_limiter (- (1 / 2))"
  let ?c' = "\<lparr>deadband_threshold = 0, minimum_output = 300, current_setpoint = 1\<rparr>"
  let ?l6 = "[Encoder_update, Encoder_get_velocity, Input_filter_update 0,
              Rate_limiting_filter_update 1 0, Pid_update 1 0, Output_filter_update (- (1 / 2))]"
  let ?B = "bench_collaborators identity_limiter 1048576"
  let ?m6 = "[Encoder_update, Encoder_get_velocity, Input_filter_update 0,
              Rate_limiting_filter_update 1 0, Pid_update 1 0, Output_filter_update 1048576]"
  have sig: "control_signal_on integer_indefinite ?K (controller_of 0 300) 1 (bench0, [])
               = (- (1 / 2), ?c', bench0, ?l6)"
    by (simp add: bench_run platform_run)
  have val: "motor_control_value 4096 (controller_of 0 300) (- (1 / 2)) = Inr (- 1228800)"
    by (simp add: bench_run)
  have run: "set_target_on integer_indefinite ?K 4096 (controller_of 0 300) 1 (bench0, [])
               = (?c', \<lparr>velocity = 0, driver_value = - 1228800\<rparr>,
                  ?l6 @ [Set_motor_control (- 1228800)])"
    by (simp add: bench_run platform_run)
  have defined: "sgn (real_of_int (- 1228800)) = sgn (- (1 / 2) :: real)"
    by (rule C5_nonzero_command_has_sign_of_output [OF _ disjI1 [OF val] run sig]) simp_all
  have sig2: "control_signal_on saturating ?B (controller_of 0 0) 1 (bench0, [])
               = (1048576, \<lparr>deadband_threshold = 0, minimum_output = 0, current_setpoint = 1\<rparr>,
                  bench0, ?m6)"
    by (simp add: bench_run platform_run)
  have val2: "motor_control_value 4096 (controller_of 0 0) 1048576 = Inl AboveRange"
    by (simp add: bench_run round_float_4294967296)
  have run2: "set_target_on saturating ?B 4096 (controller_of 0 0) 1 (bench0, [])
               = (\<lparr>deadband_threshold = 0, minimum_output = 0, current_setpoint = 1\<rparr>,
                  \<lparr>velocity = 0, driver_value = 2147483647\<rparr>,
                  ?m6 @ [Set_motor_control 2147483647])"
    by (simp add: bench_run platform_run round_float_4294967296)
  have undefined: "sgn (real_of_int 2147483647) = sgn (1048576 :: real)"
    by (rule C5_nonzero_command_has_sign_of_output
          [OF _ disjI2 [OF saturating_undefined_sign] run2 sig2]) simp_all
  show ?thesis using run sig val defined run2 val2 undefined by simp
qed

subsection \<open>Zero output\<close>

text \<open>
  C6. The claim: when \<open>u = 0\<close> the minimum-output step is skipped and the command
  written is 0, with no division \<open>0 / 0\<close>, for any deadband threshold including 0. The
  code enters the minimum-output branch whenever \<open>\<bar>u\<bar>\<close> is not below the deadband
  threshold and is below the minimum output, without testing \<open>u\<close> against zero. On the
  bench, with deadband 0, minimum 300 and \<open>u = 0\<close>, the step evaluates \<open>0 / 0\<close> and no
  defined command is written.
\<close>

theorem C6_zero_output_divides_by_zero:
  "control_signal (bench_collaborators identity_limiter 0) (controller_of 0 300) 1 (bench0, [])
     = Inr (0, \<lparr>deadband_threshold = 0, minimum_output = 300, current_setpoint = 1\<rparr>, bench0,
            [Encoder_update, Encoder_get_velocity, Input_filter_update 0,
             Rate_limiting_filter_update 1 0, Pid_update 1 0, Output_filter_update 0])
   \<and> adjust_output (controller_of 0 300) 0 = Inl NotANumber
   \<and> set_target (bench_collaborators identity_limiter 0) 4096 (controller_of 0 300) 1 (bench0, [])
     = Inl NotANumber"
  by (simp add: bench_run)

subsection \<open>Construction\<close>

text \<open>
  The claim C7, that a configuration outside the invariant makes construction fail,
  does not hold: the constructor has an empty body. Deadband 500 with minimum 300
  violates the invariant for \<open>PWM_MAX = 4096\<close>, and a controller is produced.
\<close>

theorem C7_invalid_configuration_counterexample:
  "\<not> configuration_invariant 4096 500 300
   \<and> VelocityController 500 300
       = Inr \<lparr>deadband_threshold = 500, minimum_output = 300, current_setpoint = 0\<rparr>"
  by (simp add: configuration_invariant_def VelocityController_def)

text \<open>
  C7, amended. Construction validates nothing: for every pair of thresholds, inside
  the invariant or not, it produces a controller that holds exactly these thresholds.
\<close>

theorem C7_constructor_accepts_every_configuration:
  "\<exists>c. VelocityController deadband minimum = Inr c
       \<and> deadband_threshold c = deadband \<and> minimum_output c = minimum"
  by (simp add: VelocityController_def)

text \<open>
  C10. On a freshly constructed controller, on which \<open>set_target\<close> has never been
  called, \<open>get_setpoint\<close> returns zero.
\<close>

theorem C10_fresh_setpoint_is_zero:
  "\<exists>c. VelocityController deadband minimum = Inr c \<and> get_setpoint c = 0"
  by (simp add: VelocityController_def get_setpoint_def)

subsection \<open>Order of the step\<close>

text \<open>
  C8. Within every \<open>set_target\<close>, on every platform, the encoder is updated before the
  velocity is read (the velocity is read from the updated state), and the operations
  occur in the order: sample, input filter, rate limit (the converted value is stored
  in \<open>current_setpoint\<close>), PID on the stored setpoint, output filter, deadband, minimum
  output, scaling, driver write. Each operation consumes the result and the
  collaborator state left by the one before it, and the log lists the seven calls in
  this order.
\<close>

theorem C8_step_order:
  assumes "set_target_on P K pwm c d (w0, l0) = (c', w', l')"
  shows "\<exists>w1 y0 y w2 r w3 u0 w4 u w5 a v.
           w1 = encoder_update K w0 \<and>
           y0 = encoder_get_velocity_radians_per_second K w1 \<and>
           (y, w2) = input_filter_update K y0 w1 \<and>
           (r, w3) = rate_limiting_filter_update K d y w2 \<and>
           current_setpoint c' = int64_on P (to_int64 r) \<and>
           (u0, w4) = pid_update K (float_of_int (current_setpoint c')) y w3 \<and>
           (u, w5) = output_filter_update K u0 w4 \<and>
           a = (if \<bar>u\<bar> < float_of_int (deadband_threshold c) then Inr 0
                else if \<bar>u\<bar> < float_of_int (minimum_output c) then
                  (if u = 0 then Inl NotANumber
                   else Inr (float_of_int (minimum_output c) * (u / \<bar>u\<bar>)))
                else Inr u) \<and>
           v = int32_on P (case a of Inl e \<Rightarrow> Inl e
                           | Inr x \<Rightarrow> to_int32 (round_float (x * float_of_int pwm))) \<and>
           w' = set_motor_control K v w5 \<and>
           l' = l0 @ [Encoder_update, Encoder_get_velocity, Input_filter_update y0,
                      Rate_limiting_filter_update d y,
                      Pid_update (float_of_int (current_setpoint c')) y,
                      Output_filter_update u0, Set_motor_control v]"
  using assms
  apply (simp add: set_target_on_def control_signal_on_def filtered_output_def rate_limited_def
          Let_def split: prod.splits)
  apply (auto simp: motor_control_value_def adjust_output_def)
  done

theorem C8_step_order_witness:
  "set_target_on saturating rig_collaborators 4096 (controller_of 0 1) 3 (rig0, [])
     = (\<lparr>deadband_threshold = 0, minimum_output = 1, current_setpoint = 3\<rparr>,
        \<lparr>encoder_sample = 2, encoder_velocity = 2, duty = 4096\<rparr>,
        [Encoder_update, Encoder_get_velocity, Input_filter_update 2,
         Rate_limiting_filter_update 3 2, Pid_update 3 2, Output_filter_update (1 / 2),
         Set_motor_control 4096])
   \<and> set_target_on saturating rig_collaborators 4096 (controller_of 1 1) 3 (rig0, [])
     = (\<lparr>deadband_threshold = 1, minimum_output = 1, current_setpoint = 3\<rparr>,
        \<lparr>encoder_sample = 2, encoder_velocity = 2, duty = 0\<rparr>,
        [Encoder_update, Encoder_get_velocity, Input_filter_update 2,
         Rate_limiting_filter_update 3 2, Pid_update 3 2, Output_filter_update (1 / 2),
         Set_motor_control 0])
   \<and> (\<exists>y0 y u0 u a v.
         y0 = encoder_get_velocity_radians_per_second rig_collaborators
                (encoder_update rig_collaborators rig0) \<and>
         (y, encoder_update rig_collaborators rig0)
           = input_filter_update rig_collaborators y0 (encoder_update rig_collaborators rig0) \<and>
         (u0, encoder_update rig_collaborators rig0)
           = pid_update rig_collaborators (float_of_int 3) y (encoder_update rig_collaborators rig0) \<and>
         (u, encoder_update rig_collaborators rig0)
           = output_filter_update rig_collaborators u0 (encoder_update rig_collaborators rig0) \<and>
         a = (if \<bar>u\<bar> < float_of_int (deadband_threshold (controller_of 0 1)) then Inr 0
              else if \<bar>u\<bar> < float_of_int (minimum_output (controller_of 0 1)) then
                (if u = 0 then Inl NotANumber
                 else Inr (float_of_int (minimum_output (controller_of 0 1)) * (u / \<bar>u\<bar>)))
              else Inr u) \<and>
         v = int32_on saturating
               (case a of Inl e \<Rightarrow> Inl e
                | Inr x \<Rightarrow> to_int32 (round_float (x * float_of_int 4096))) \<and>
         y0 = 2 \<and> y = 2 \<and> u0 = 1 / 2 \<and> u = 1 / 2 \<and> a = Inr 1 \<and> v = 4096)
   \<and> (\<exists>u a v.
         a = (if \<bar>u\<bar> < float_of_int (deadband_threshold (controller_of 1 1)) then Inr 0
              else if \<bar>u\<bar> < float_of_int (minimum_output (controller_of 1 1)) then
                (if u = 0 then Inl NotANumber
                 else Inr (float_of_int (minimum_output (controller_of 1 1)) * (u / \<bar>u\<bar>)))
              else Inr u) \<and>
         v = int32_on saturating
               (case a of Inl e \<Rightarrow> Inl e
                | Inr x \<Rightarrow> to_int32 (round_float (x * float_of_int 4096))) \<and>
         u = 1 / 2 \<and> a = Inr 0 \<and> v = 0)"
proof -
  let ?lA = "[Encoder_update, Encoder_get_velocity, Input_filter_update 2,
              Rate_limiting_filter_update 3 2, Pid_update 3 2, Output_filter_update (1 / 2),
              Set_motor_control 4096]"
  let ?lB = "[Encoder_update, Encoder_get_velocity, Input_filter_update 2,
              Rate_limiting_filter_update 3 2, Pid_update 3 2, Output_filter_update (1 / 2),
              Set_motor_control 0]"
  have runA: "set_target_on saturating rig_collaborators 4096 (controller_of 0 1) 3 (rig0, [])
     = (\<lparr>deadband_threshold = 0, minimum_output = 1, current_setpoint = 3\<rparr>,
        \<lparr>encoder_sample = 2, encoder_velocity = 2, duty = 4096\<rparr>, ?lA)"
    by (simp add: bench_run platform_run)
  have runB: "set_target_on saturating rig_collaborators 4096 (controller_of 1 1) 3 (rig0, [])
     = (\<lparr>deadband_threshold = 1, minimum_output = 1, current_setpoint = 3\<rparr>,
        \<lparr>encoder_sample = 2, encoder_velocity = 2, duty = 0\<rparr>, ?lB)"
    by (simp add: bench_run platform_run)
  have upd: "encoder_update rig_collaborators rig0
               = \<lparr>encoder_sample = 2, encoder_velocity = 2, duty = 0\<rparr>"
    by (simp add: rig_collaborators_def rig0_def)
  from C8_step_order [OF runA]
  obtain w1 y0 y w2 r w3 u0 w4 u w5 a v where A:
    "w1 = encoder_update rig_collaborators rig0"
    "y0 = encoder_get_velocity_radians_per_second rig_collaborators w1"
    "(y, w2) = input_filter_update rig_collaborators y0 w1"
    "(r, w3) = rate_limiting_filter_update rig_collaborators 3 y w2"
    "(u0, w4) = pid_update rig_collaborators (float_of_int 3) y w3"
    "(u, w5) = output_filter_update rig_collaborators u0 w4"
    "a = (if \<bar>u\<bar> < float_of_int (deadband_threshold (controller_of 0 1)) then Inr 0
          else if \<bar>u\<bar> < float_of_int (minimum_output (controller_of 0 1)) then
            (if u = 0 then Inl NotANumber
             else Inr (float_of_int (minimum_output (controller_of 0 1)) * (u / \<bar>u\<bar>)))
          else Inr u)"
    "v = int32_on saturating
           (case a of Inl e \<Rightarrow> Inl e
            | Inr x \<Rightarrow> to_int32 (round_float (x * float_of_int 4096)))"
    "?lA = [] @ [Encoder_update, Encoder_get_velocity, Input_filter_update y0,
                 Rate_limiting_filter_update 3 y, Pid_update (float_of_int 3) y,
                 Output_filter_update u0, Set_motor_control v]"
    by auto
  from A(1-6) upd have ws: "w1 = encoder_update rig_collaborators rig0"
    "w2 = w1" "w3 = w1" "w4 = w1" "w5 = w1"
    by (auto simp: rig_collaborators_def)
  from A(9) have vals: "y0 = 2" "y = 2" "u0 = 1 / 2" "v = 4096" by simp_all
  from A(6) vals have u: "u = 1 / 2" by (simp add: rig_collaborators_def)
  from A(7) u have a: "a = Inr 1" by (simp add: controller_of_def float_of_int_exact)
  have partA: "\<exists>y0 y u0 u a v.
         y0 = encoder_get_velocity_radians_per_second rig_collaborators
                (encoder_update rig_collaborators rig0) \<and>
         (y, encoder_update rig_collaborators rig0)
           = input_filter_update rig_collaborators y0 (encoder_update rig_collaborators rig0) \<and>
         (u0, encoder_update rig_collaborators rig0)
           = pid_update rig_collaborators (float_of_int 3) y (encoder_update rig_collaborators rig0) \<and>
         (u, encoder_update rig_collaborators rig0)
           = output_filter_update rig_collaborators u0 (encoder_update rig_collaborators rig0) \<and>
         a = (if \<bar>u\<bar> < float_of_int (deadband_threshold (controller_of 0 1)) then Inr 0
              else if \<bar>u\<bar> < float_of_int (minimum_output (controller_of 0 1)) then
                (if u = 0 then Inl NotANumber
                 else Inr (float_of_int (minimum_output (controller_of 0 1)) * (u / \<bar>u\<bar>)))
              else Inr u) \<and>
         v = int32_on saturating
               (case a of Inl e \<Rightarrow> Inl e
                | Inr x \<Rightarrow> to_int32 (round_float (x * float_of_int 4096))) \<and>
         y0 = 2 \<and> y = 2 \<and> u0 = 1 / 2 \<and> u = 1 / 2 \<and> a = Inr 1 \<and> v = 4096"
    using A(2,3,5,6,7,8) ws vals u a by blast
  from C8_step_order [OF runB]
  obtain w1' y0' y' w2' r' w3' u0' w4' u' w5' a' v' where B:
    "(u', w5') = output_filter_update rig_collaborators u0' w4'"
    "a' = (if \<bar>u'\<bar> < float_of_int (deadband_threshold (controller_of 1 1)) then Inr 0
          else if \<bar>u'\<bar> < float_of_int (minimum_output (controller_of 1 1)) then
            (if u' = 0 then Inl NotANumber
             else Inr (float_of_int (minimum_output (controller_of 1 1)) * (u' / \<bar>u'\<bar>)))
          else Inr u')"
    "v' = int32_on saturating
           (case a' of Inl e \<Rightarrow> Inl e
            | Inr x \<Rightarrow> to_int32 (round_float (x * float_of_int 4096)))"
    "?lB = [] @ [Encoder_update, Encoder_get_velocity, Input_filter_update y0',
                 Rate_limiting_filter_update 3 y', Pid_update (float_of_int 3) y',
                 Output_filter_update u0', Set_motor_control v']"
    "w1' = encoder_update rig_collaborators rig0"
    "(y', w2') = input_filter_update rig_collaborators y0' w1'"
    "(r', w3') = rate_limiting_filter_update rig_collaborators 3 y' w2'"
    by auto
  from B(4) have vals': "u0' = 1 / 2" "v' = 0" by simp_all
  from B(1) vals' have u': "u' = 1 / 2" by (simp add: rig_collaborators_def)
  from B(2) u' have a': "a' = Inr 0" by (simp add: controller_of_def float_of_int_exact)
  have partB: "\<exists>u a v.
         a = (if \<bar>u\<bar> < float_of_int (deadband_threshold (controller_of 1 1)) then Inr 0
              else if \<bar>u\<bar> < float_of_int (minimum_output (controller_of 1 1)) then
                (if u = 0 then Inl NotANumber
                 else Inr (float_of_int (minimum_output (controller_of 1 1)) * (u / \<bar>u\<bar>)))
              else Inr u) \<and>
         v = int32_on saturating
               (case a of Inl e \<Rightarrow> Inl e
                | Inr x \<Rightarrow> to_int32 (round_float (x * float_of_int 4096))) \<and>
         u = 1 / 2 \<and> a = Inr 0 \<and> v = 0"
    using B(2,3) vals' u' a' by blast
  show ?thesis
    apply (intro conjI)
       apply (rule runA)
      apply (rule runB)
     apply (rule partA)
    apply (rule partB)
    done
qed

subsection \<open>Determinism\<close>



end
